theory Spec2Isabelle
  imports Main "HOL-Library.Word" "HOL-Library.Signed_Division"
begin

unbundle bit_operations_syntax

section \<open>Functional units of the scalar RV32I pipeline (units/include/Basics.h)\<close>

text \<open>
  A \<open>std::bitset<N>\<close> is an \<open>N word\<close>. The unsigned long that \<open>to_ulong\<close> returns is
  taken as 64 bits wide; every use below truncates it to 32 bits again, so the
  embedding is the same for a 32-bit unsigned long. Failed assertions, exceptions and
  undefined behaviour are values of \<open>error\<close>, returned as \<open>Inl\<close>. A data member
  \<open>x_\<close> of a class is the record field \<open>x_m\<close>.
\<close>

datatype error = AssertionFailed | OutOfRange | UndefinedBehaviour

subsection \<open>Bit primitives\<close>

text \<open>
  \<open>b.to_string()\<close>: the N characters of the bitset, most significant bit first. A
  character is a \<open>bool\<close>, \<open>True\<close> for '1'.
\<close>

definition to_string :: "'a::len word \<Rightarrow> bool list" where
  "to_string b = map (bit b) (rev [0..<LENGTH('a)])"

text \<open>
  \<open>std::bitset<N>{str}\<close>: the first N characters of the string are used, the last of
  them is bit 0; a shorter string leaves the high bits zero.
\<close>

definition bitset :: "bool list \<Rightarrow> 'a::len word" where
  "bitset str = horner_sum of_bool 2 (rev (take LENGTH('a) str))"

text \<open>\<open>str.substr(pos, n)\<close>, used below only with \<open>pos\<close> inside the string.\<close>

definition substr :: "bool list \<Rightarrow> nat \<Rightarrow> nat \<Rightarrow> bool list" where
  "substr str pos n = take n (drop pos str)"

text \<open>\<open>b.to_ulong()\<close> and \<open>std::bitset<32>{unsigned long}\<close>, which keeps the low 32 bits.\<close>

definition to_ulong :: "'a::len word \<Rightarrow> 64 word" where
  "to_ulong b = ucast b"

definition bitset_of_ulong :: "64 word \<Rightarrow> 32 word" where
  "bitset_of_ulong v = ucast v"

text \<open>
  \<open>sub_range<L, R, N>(b)\<close>: bits L down to R of b, as a bitset of L - R + 1 bits (the
  result type \<open>'b\<close> at each use). The static assertion R \<le> L \<le> N - 1 holds at every
  instantiation in the source.
\<close>

definition sub_range :: "nat \<Rightarrow> nat \<Rightarrow> 'a::len word \<Rightarrow> 'b::len word" where
  "sub_range L R b = bitset (substr (to_string b) (LENGTH('a) - L - 1) (L - R + 1))"

text \<open>
  \<open>concat<N>(args...)\<close>: the strings of the arguments are accumulated left to right
  and the result is asserted to have N characters.
\<close>

definition concat_bitsets :: "bool list list \<Rightarrow> error + 'a::len word" where
  "concat_bitsets bit_params =
     (let bit_representation_ans = foldl (@) [] bit_params
      in if length bit_representation_ans = LENGTH('a)
         then Inr (bitset bit_representation_ans)
         else Inl AssertionFailed)"

definition SignBit :: "'a::len word \<Rightarrow> 1 word" where
  "SignBit imm = (if bit imm (LENGTH('a) - 1) then 1 else 0)"

text \<open>\<open>SignExt<N>(SE)\<close>: all N bits set when the one bit of SE is set, else all clear.\<close>

definition SignExt :: "1 word \<Rightarrow> 'a::len word" where
  "SignExt SE = (if bit SE 0 then NOT 0 else 0)"

subsection \<open>Fetch units: PC and IMEM\<close>

record PC =
  pc_m :: "32 word"

definition PC_default :: PC where
  "PC_default = \<lparr>pc_m = 0\<rparr>"

definition PC_of :: "32 word \<Rightarrow> PC" where
  "PC_of pc = \<lparr>pc_m = pc\<rparr>"

text \<open>
  \<open>PC operator+(uint32_t offset)\<close>: the offset is cast to int32_t and divided by 4
  (C++ division, truncating towards zero); the quotient is converted back to
  uint32_t by the addition.
\<close>

definition PC_plus :: "PC \<Rightarrow> 32 word \<Rightarrow> error + PC" where
  "PC_plus p offset =
     (if unat offset mod 4 \<noteq> 0 then Inl AssertionFailed
      else Inr (PC_of (pc_m p + word_of_int (sint offset sdiv 4))))"

text \<open>\<open>PC &operator+=(uint32_t offset)\<close>.\<close>

definition PC_plus_assign :: "PC \<Rightarrow> 32 word \<Rightarrow> error + PC" where
  "PC_plus_assign p offset =
     (if unat offset mod 4 \<noteq> 0 then Inl AssertionFailed
      else Inr (p\<lparr>pc_m := pc_m p + word_of_int (sint offset sdiv 4)\<rparr>))"

text \<open>\<open>PC &operator=(uint32_t pc)\<close>: asserts pc % 4 == 0, then stores pc as it is.\<close>

definition PC_assign :: "PC \<Rightarrow> 32 word \<Rightarrow> error + PC" where
  "PC_assign p pc =
     (if unat pc mod 4 \<noteq> 0 then Inl AssertionFailed
      else Inr (p\<lparr>pc_m := pc\<rparr>))"

definition val :: "PC \<Rightarrow> 32 word" where
  "val p = pc_m p"

definition realVal :: "PC \<Rightarrow> 32 word" where
  "realVal p = pc_m p * 4"

record IMEM =
  imem_m :: "32 word list"

text \<open>\<open>pc.val() == imem_.size()\<close>, compared as \<open>size_t\<close>.\<close>

definition isEndOfIMEM :: "IMEM \<Rightarrow> PC \<Rightarrow> bool" where
  "isEndOfIMEM m pc = (unat (val pc) = length (imem_m m))"

text \<open>
  \<open>imem_.at(pc.val())\<close>: \<open>at\<close> throws \<open>std::out_of_range\<close> for an index that is not
  below the size; the function is \<open>noexcept\<close>, so the program is terminated there.
\<close>

definition getInstr :: "IMEM \<Rightarrow> PC \<Rightarrow> error + 32 word" where
  "getInstr m pc =
     (if unat (val pc) < length (imem_m m) then Inr (imem_m m ! unat (val pc))
      else Inl OutOfRange)"

subsection \<open>Decode units: the register file\<close>

record RegisterFile =
  regs_m :: "32 word list"

text \<open>The default member initialiser: a vector of 32 zero words.\<close>

definition RegisterFile_init :: RegisterFile where
  "RegisterFile_init = \<lparr>regs_m = replicate 32 0\<rparr>"

text \<open>
  \<open>Write(A3, D3)\<close>: \<open>regs_[idx] = D3\<close> with \<open>uint8_t idx = A3.to_ulong()\<close>. Indexing
  a vector beyond its size is undefined behaviour.
\<close>

definition Write :: "5 word \<Rightarrow> 32 word \<Rightarrow> RegisterFile \<Rightarrow> error + RegisterFile" where
  "Write A3 D3 rf =
     (let idx = (ucast (to_ulong A3) :: 8 word)
      in if \<not> unat idx < 32 then Inl AssertionFailed
         else if \<not> unat idx < length (regs_m rf) then Inl UndefinedBehaviour
         else Inr (rf\<lparr>regs_m := (regs_m rf)[unat idx := D3]\<rparr>))"

definition Read :: "5 word \<Rightarrow> RegisterFile \<Rightarrow> error + 32 word" where
  "Read A rf =
     (let idx = (ucast (to_ulong A) :: 8 word)
      in if \<not> unat idx < 32 then Inl AssertionFailed
         else if \<not> unat idx < length (regs_m rf) then Inl OutOfRange
         else Inr (regs_m rf ! unat idx))"

subsection \<open>Execute units: IMM, ALU and WE_GEN\<close>

text \<open>
  \<open>RISCVInstr\<close> is declared in instruction.h; the immediate generator reads the raw
  word (\<open>getInstr()\<close>) and the format (\<open>getFormat()\<close>) of it, which are the two fields
  here.
\<close>

datatype Format = Format_R | Format_I | Format_S | Format_B | Format_U | Format_J

record RISCVInstr =
  instr_bits :: "32 word"
  instr_format :: Format

datatype IMM_Type = Imm_None | Imm_I | Imm_S | Imm_B | Imm_U | Imm_J

record IMM =
  type_m :: IMM_Type
  imm_m :: "32 word"

definition IMM_default :: IMM where
  "IMM_default = \<lparr>type_m = Imm_None, imm_m = 0\<rparr>"

text \<open>
  \<open>IMM(const RISCVInstr &instr, bool is_jalr = false)\<close>. The member \<open>imm_\<close> is
  default-constructed (all bits clear) before the switch assigns it.
\<close>

definition IMM_of :: "RISCVInstr \<Rightarrow> bool \<Rightarrow> error + IMM" where
  "IMM_of instr is_jalr =
     (let ins_bits = instr_bits instr
      in case instr_format instr of
           Format_R \<Rightarrow> Inr \<lparr>type_m = Imm_None, imm_m = 0\<rparr>
         | Format_I \<Rightarrow>
             map_sum id (\<lambda>v. \<lparr>type_m = (if is_jalr then Imm_None else Imm_I), imm_m = v\<rparr>)
               (if is_jalr then Inr (bitset_of_ulong 4)
                else concat_bitsets
                       [to_string (SignExt (SignBit ins_bits) :: 21 word),
                        to_string (sub_range 30 20 ins_bits :: 11 word)])
         | Format_S \<Rightarrow>
             map_sum id (\<lambda>v. \<lparr>type_m = Imm_S, imm_m = v\<rparr>)
               (concat_bitsets
                  [to_string (SignExt (SignBit ins_bits) :: 21 word),
                   to_string (sub_range 30 25 ins_bits :: 6 word),
                   to_string (sub_range 11 7 ins_bits :: 5 word)])
         | Format_B \<Rightarrow>
             map_sum id (\<lambda>v. \<lparr>type_m = Imm_B, imm_m = v\<rparr>)
               (concat_bitsets
                  [to_string (SignExt (SignBit ins_bits) :: 20 word),
                   to_string (sub_range 7 7 ins_bits :: 1 word),
                   to_string (sub_range 30 25 ins_bits :: 6 word),
                   to_string (sub_range 11 8 ins_bits :: 4 word),
                   to_string (0 :: 1 word)])
         | Format_U \<Rightarrow>
             map_sum id (\<lambda>v. \<lparr>type_m = Imm_U, imm_m = v\<rparr>)
               (concat_bitsets
                  [to_string (sub_range 31 12 ins_bits :: 20 word),
                   to_string (0 :: 12 word)])
         | Format_J \<Rightarrow>
             map_sum id (\<lambda>v. \<lparr>type_m = Imm_J, imm_m = v\<rparr>)
               (concat_bitsets
                  [to_string (SignExt (SignBit ins_bits) :: 12 word),
                   to_string (sub_range 19 12 ins_bits :: 8 word),
                   to_string (sub_range 20 20 ins_bits :: 1 word),
                   to_string (sub_range 30 21 ins_bits :: 10 word),
                   to_string (0 :: 1 word)]))"

definition getImm :: "IMM \<Rightarrow> 32 word" where
  "getImm i = imm_m i"

datatype ALU_Op = Op_ADD | Op_SUB | Op_XOR | Op_OR | Op_AND | Op_SLL | Op_SRL | Op_SRA
  | Op_SLT | Op_SLTU

text \<open>
  \<open>ALU::calc\<close>. ADD and SUB compute on unsigned long and the bitset keeps the low 32
  bits. SLL and SRL are the shifts of \<open>std::bitset\<close>, defined for every count. SRA is
  the built-in \<open>>>\<close> of an \<open>int32_t\<close>: on a negative value it divides by a power of
  two rounding down (what C++20 defines and the compilers did before it), and it is
  undefined for a count of 32 or more; its \<open>int\<close> result is converted to the bitset
  modulo \<open>2 ^ 32\<close>.
\<close>

definition calc :: "32 word \<Rightarrow> 32 word \<Rightarrow> ALU_Op \<Rightarrow> error + 32 word" where
  "calc lhs rhs alu_op =
     (case alu_op of
        Op_ADD \<Rightarrow> Inr (bitset_of_ulong (to_ulong lhs + to_ulong rhs))
      | Op_SUB \<Rightarrow> Inr (bitset_of_ulong (to_ulong lhs - to_ulong rhs))
      | Op_XOR \<Rightarrow> Inr (lhs XOR rhs)
      | Op_OR \<Rightarrow> Inr (lhs OR rhs)
      | Op_AND \<Rightarrow> Inr (lhs AND rhs)
      | Op_SLL \<Rightarrow> Inr (push_bit (unat (to_ulong rhs)) lhs)
      | Op_SRL \<Rightarrow> Inr (drop_bit (unat (to_ulong rhs)) lhs)
      | Op_SRA \<Rightarrow>
          (if 32 \<le> unat (to_ulong rhs) then Inl UndefinedBehaviour
           else Inr (word_of_int
                  (sint (bitset_of_ulong (to_ulong lhs)) div 2 ^ unat (to_ulong rhs))))
      | Op_SLT \<Rightarrow>
          Inr (if sint (bitset_of_ulong (to_ulong lhs)) < sint (bitset_of_ulong (to_ulong rhs))
               then 1 else 0)
      | Op_SLTU \<Rightarrow> Inr (if to_ulong lhs < to_ulong rhs then 1 else 0))"

record WE_GEN =
  mem_we_m :: bool
  wb_we_m :: bool
  ebreak_m :: bool

definition WE_GEN_default :: WE_GEN where
  "WE_GEN_default = \<lparr>mem_we_m = False, wb_we_m = False, ebreak_m = False\<rparr>"

definition WE_GEN_of :: "bool \<Rightarrow> bool \<Rightarrow> bool \<Rightarrow> bool \<Rightarrow> WE_GEN" where
  "WE_GEN_of mem_we wb_we ebreak v_ex =
     \<lparr>mem_we_m = (mem_we \<and> v_ex), wb_we_m = (wb_we \<and> v_ex), ebreak_m = (ebreak \<and> v_ex)\<rparr>"

definition MEM_WE :: "WE_GEN \<Rightarrow> bool" where
  "MEM_WE g = mem_we_m g"

definition WB_WE :: "WE_GEN \<Rightarrow> bool" where
  "WB_WE g = wb_we_m g"

definition EBREAK :: "WE_GEN \<Rightarrow> bool" where
  "EBREAK g = ebreak_m g"

subsection \<open>Memory units: DMEM\<close>

datatype Width = BYTE | BYTE_U | HALF | HALF_U | WORD

text \<open>\<open>std::map<uint32_t, std::bitset<32>> dmem_\<close>, empty at construction.\<close>

record DMEM =
  dmem_m :: "32 word \<rightharpoonup> 32 word"

definition DMEM_init :: DMEM where
  "DMEM_init = \<lparr>dmem_m = Map.empty\<rparr>"

text \<open>
  \<open>dmem_[idx]\<close> as a read: \<open>std::map::operator[]\<close> inserts a default-constructed
  (all zero) bitset under a key that is absent, and returns the entry.
\<close>

definition dmem_subscript :: "DMEM \<Rightarrow> 32 word \<Rightarrow> 32 word \<times> DMEM" where
  "dmem_subscript d idx =
     (case dmem_m d idx of
        None \<Rightarrow> (0, d\<lparr>dmem_m := (dmem_m d)(idx \<mapsto> 0)\<rparr>)
      | Some v \<Rightarrow> (v, d))"

text \<open>\<open>dmem_[idx] = v\<close>.\<close>

definition dmem_assign :: "DMEM \<Rightarrow> 32 word \<Rightarrow> 32 word \<Rightarrow> DMEM" where
  "dmem_assign d idx v = d\<lparr>dmem_m := (dmem_m d)(idx \<mapsto> v)\<rparr>"

text \<open>The index is \<open>A.to_ulong()\<close>, converted to the 32-bit key of the map.\<close>

definition Store :: "32 word \<Rightarrow> 32 word \<Rightarrow> Width \<Rightarrow> DMEM \<Rightarrow> error + DMEM" where
  "Store WD A w_type d =
     (let idx = (ucast (to_ulong A) :: 32 word)
      in case w_type of
           BYTE \<Rightarrow> map_sum id (dmem_assign d idx)
             (concat_bitsets [to_string (0 :: 24 word), to_string (sub_range 7 0 WD :: 8 word)])
         | BYTE_U \<Rightarrow> map_sum id (dmem_assign d idx)
             (concat_bitsets [to_string (0 :: 24 word), to_string (sub_range 7 0 WD :: 8 word)])
         | HALF \<Rightarrow> map_sum id (dmem_assign d idx)
             (concat_bitsets [to_string (0 :: 16 word), to_string (sub_range 15 0 WD :: 16 word)])
         | HALF_U \<Rightarrow> map_sum id (dmem_assign d idx)
             (concat_bitsets [to_string (0 :: 16 word), to_string (sub_range 15 0 WD :: 16 word)])
         | WORD \<Rightarrow> Inr (dmem_assign d idx WD))"

definition Load :: "32 word \<Rightarrow> Width \<Rightarrow> DMEM \<Rightarrow> error + (32 word \<times> DMEM)" where
  "Load A w_type d =
     (let idx = (ucast (to_ulong A) :: 32 word);
          (cell, d') = dmem_subscript d idx
      in case w_type of
           BYTE \<Rightarrow>
             (let byte = (sub_range 7 0 cell :: 8 word)
              in map_sum id (\<lambda>v. (v, d'))
                   (concat_bitsets
                      [to_string (SignExt (SignBit byte) :: 24 word), to_string byte]))
         | BYTE_U \<Rightarrow>
             (let byte = (sub_range 7 0 cell :: 8 word)
              in map_sum id (\<lambda>v. (v, d'))
                   (concat_bitsets [to_string (0 :: 24 word), to_string byte]))
         | HALF \<Rightarrow>
             (let half_word = (sub_range 15 0 cell :: 16 word)
              in map_sum id (\<lambda>v. (v, d'))
                   (concat_bitsets
                      [to_string (SignExt (SignBit half_word) :: 16 word),
                       to_string half_word]))
         | HALF_U \<Rightarrow>
             (let half_word = (sub_range 15 0 cell :: 16 word)
              in map_sum id (\<lambda>v. (v, d'))
                   (concat_bitsets [to_string (0 :: 16 word), to_string half_word]))
         | WORD \<Rightarrow> Inr (cell, d'))"

subsection \<open>Sequences of operations\<close>

text \<open>\<open>rf.Write(A3, D3)\<close> followed by \<open>rf.Read(A)\<close>.\<close>

definition write_then_read ::
  "5 word \<Rightarrow> 32 word \<Rightarrow> 5 word \<Rightarrow> RegisterFile \<Rightarrow> error + 32 word" where
  "write_then_read A3 D3 A rf =
     (case Write A3 D3 rf of Inl e \<Rightarrow> Inl e | Inr rf' \<Rightarrow> Read A rf')"

text \<open>\<open>dmem.Store(WD, A, w)\<close> followed by \<open>dmem.Load(B, w')\<close>; the value loaded.\<close>

definition store_then_load ::
  "32 word \<Rightarrow> 32 word \<Rightarrow> Width \<Rightarrow> 32 word \<Rightarrow> Width \<Rightarrow> DMEM \<Rightarrow> error + 32 word" where
  "store_then_load WD A w B w' d =
     (case Store WD A w d of Inl e \<Rightarrow> Inl e | Inr d' \<Rightarrow> map_sum id fst (Load B w' d'))"

text \<open>
  A program of memory operations, run from a state; the result is the list of the
  values its loads return, in order.
\<close>

datatype dmem_op = DoStore "32 word" "32 word" Width | DoLoad "32 word" Width

fun run_ops :: "dmem_op list \<Rightarrow> DMEM \<Rightarrow> error + 32 word list" where
  "run_ops [] d = Inr []"
| "run_ops (DoStore WD A w # ops) d =
     (case Store WD A w d of Inl e \<Rightarrow> Inl e | Inr d' \<Rightarrow> run_ops ops d')"
| "run_ops (DoLoad A w # ops) d =
     (case Load A w d of
        Inl e \<Rightarrow> Inl e
      | Inr (v, d') \<Rightarrow> map_sum id ((#) v) (run_ops ops d'))"

text \<open>
  The data-memory states in which address A has never been the target of a store:
  those built from the empty memory by stores to other addresses and by loads.
\<close>

inductive never_stored :: "32 word \<Rightarrow> DMEM \<Rightarrow> bool" for A :: "32 word" where
  fresh: "never_stored A DMEM_init"
| after_store: "never_stored A d \<Longrightarrow> B \<noteq> A \<Longrightarrow> Store WD B w d = Inr d' \<Longrightarrow> never_stored A d'"
| after_load: "never_stored A d \<Longrightarrow> Load B w d = Inr (v, d') \<Longrightarrow> never_stored A d'"

subsection \<open>The words of the specification\<close>

text \<open>
  \<open>bits hi lo w\<close> is the field \<open>[hi:lo]\<close> of an instruction word, right-aligned;
  \<open>sign_extend n v\<close> extends the n-bit value v to 32 bits by its bit n - 1; a
  concatenation \<open>{a, b}\<close> with b of k bits is \<open>push_bit k a OR b\<close>.
\<close>

definition bits :: "nat \<Rightarrow> nat \<Rightarrow> 32 word \<Rightarrow> 32 word" where
  "bits hi lo w = take_bit (hi - lo + 1) (drop_bit lo w)"

definition sign_extend :: "nat \<Rightarrow> 32 word \<Rightarrow> 32 word" where
  "sign_extend n v = signed_take_bit (n - 1) v"

definition spec_imm_I :: "32 word \<Rightarrow> 32 word" where
  "spec_imm_I w = sign_extend 12 (bits 31 20 w)"

definition spec_imm_S :: "32 word \<Rightarrow> 32 word" where
  "spec_imm_S w = sign_extend 12 (push_bit 5 (bits 31 25 w) OR bits 11 7 w)"

definition spec_imm_B :: "32 word \<Rightarrow> 32 word" where
  "spec_imm_B w =
     sign_extend 13
       (push_bit 12 (bits 31 31 w) OR push_bit 11 (bits 7 7 w)
        OR push_bit 5 (bits 30 25 w) OR push_bit 1 (bits 11 8 w))"

definition spec_imm_U :: "32 word \<Rightarrow> 32 word" where
  "spec_imm_U w = push_bit 12 (bits 31 12 w)"

definition spec_imm_J :: "32 word \<Rightarrow> 32 word" where
  "spec_imm_J w =
     sign_extend 21
       (push_bit 20 (bits 31 31 w) OR push_bit 12 (bits 19 12 w)
        OR push_bit 11 (bits 20 20 w) OR push_bit 1 (bits 30 21 w))"

text \<open>
  The arithmetic right shift of a 32-bit two's-complement value by s positions, bit by
  bit: bit n of the result is bit s + n of the operand, and the sign bit 31 where
  s + n is beyond the word.
\<close>

definition arith_shift_right :: "32 word \<Rightarrow> nat \<Rightarrow> 32 word" where
  "arith_shift_right v s =
     horner_sum of_bool 2 (map (\<lambda>n. bit v (if s + n < 32 then s + n else 31)) [0..<32])"

text \<open>Byte k of a word, byte 0 the least significant.\<close>

definition byte_of :: "nat \<Rightarrow> 32 word \<Rightarrow> 32 word" where
  "byte_of k W = take_bit 8 (drop_bit (8 * k) W)"

subsection \<open>Notions of the proofs\<close>

text \<open>Bit n of a bit string, counted from its last character.\<close>

definition sbit :: "bool list \<Rightarrow> nat \<Rightarrow> bool" where
  "sbit s n = (n < length s \<and> rev s ! n)"

text \<open>The word a memory holds at an address: zero where the map has no entry.\<close>

definition cell :: "DMEM \<Rightarrow> 32 word \<Rightarrow> 32 word" where
  "cell d a = (case dmem_m d a of None \<Rightarrow> 0 | Some v \<Rightarrow> v)"

text \<open>What a store of a width keeps of the word, and what a load of a width makes of a cell.\<close>

definition stored :: "Width \<Rightarrow> 32 word \<Rightarrow> 32 word" where
  "stored w WD =
     (case w of BYTE \<Rightarrow> take_bit 8 WD | BYTE_U \<Rightarrow> take_bit 8 WD
      | HALF \<Rightarrow> take_bit 16 WD | HALF_U \<Rightarrow> take_bit 16 WD | WORD \<Rightarrow> WD)"

definition loaded :: "Width \<Rightarrow> 32 word \<Rightarrow> 32 word" where
  "loaded w v =
     (case w of BYTE \<Rightarrow> signed_take_bit 7 v | BYTE_U \<Rightarrow> take_bit 8 v
      | HALF \<Rightarrow> signed_take_bit 15 v | HALF_U \<Rightarrow> take_bit 16 v | WORD \<Rightarrow> v)"

section \<open>Bit strings and words\<close>

lemma length_to_string: "length (to_string (b::'a::len word)) = LENGTH('a)"
  by (simp add: to_string_def)

lemma nth_to_string:
  "i < LENGTH('a) \<Longrightarrow> to_string (b::'a::len word) ! i = bit b (LENGTH('a) - 1 - i)"
  by (simp add: to_string_def rev_nth)

lemma sbit_to_string: "sbit (to_string b) n = bit b n"
  by (cases "n < LENGTH('a)")
    (auto simp: sbit_def to_string_def rev_map dest: bit_imp_le_length)

lemma sbit_append:
  "sbit (s @ t) n = (if n < length t then sbit t n else sbit s (n - length t))"
  by (auto simp: sbit_def nth_append)

lemma sbit_Nil: "sbit [] n = False"
  by (simp add: sbit_def)

lemma bit_bitset:
  "length s \<le> LENGTH('a) \<Longrightarrow> bit (bitset s :: 'a::len word) n = sbit s n"
  by (auto simp: bitset_def sbit_def bit_horner_sum_bit_word_iff)

text \<open>\<open>sub_range L R b\<close> holds bits L down to R of b.\<close>

lemma bit_sub_range:
  fixes b :: "'a::len word"
  assumes "R \<le> L" "L < LENGTH('a)" "LENGTH('b::len) = L - R + 1"
  shows "bit (sub_range L R b :: 'b word) n = (n \<le> L - R \<and> bit b (R + n))"
proof -
  let ?s = "substr (to_string b) (LENGTH('a) - L - 1) (L - R + 1)"
  have len: "length ?s = L - R + 1"
    using assms by (simp add: substr_def length_to_string)
  have "bit (sub_range L R b :: 'b word) n = sbit ?s n"
    unfolding sub_range_def using len assms by (simp add: bit_bitset)
  also have "\<dots> = (n \<le> L - R \<and> bit b (R + n))"
  proof (cases "n \<le> L - R")
    case True
    then have "rev ?s ! n = ?s ! (L - R - n)"
      using len by (simp add: rev_nth)
    also have "\<dots> = to_string b ! (LENGTH('a) - L - 1 + (L - R - n))"
      using True assms by (simp add: substr_def length_to_string)
    also have "\<dots> = bit b (R + n)"
    proof -
      have "LENGTH('a) - 1 - (LENGTH('a) - L - 1 + (L - R - n)) = R + n"
        using True assms by simp
      moreover have "LENGTH('a) - L - 1 + (L - R - n) < LENGTH('a)"
        using True assms by simp
      ultimately show ?thesis by (simp add: nth_to_string)
    qed
    finally show ?thesis using True len by (simp add: sbit_def)
  next
    case False
    then show ?thesis using len by (simp add: sbit_def)
  qed
  finally show ?thesis .
qed

lemma bit_SignBit: "bit (SignBit (w::'a::len word)) n = (n = 0 \<and> bit w (LENGTH('a) - 1))"
  by (auto simp: SignBit_def bit_1_iff)

lemma bit_SignExt: "bit (SignExt se :: 'a::len word) n = (n < LENGTH('a) \<and> bit se 0)"
  by (auto simp: SignExt_def bit_simps)

lemma foldl_append_concat: "foldl (@) acc ps = acc @ concat ps"
  by (induction ps arbitrary: acc) simp_all

text \<open>The assertion of \<open>concat\<close> holds when the lengths add up to the width.\<close>

lemma concat_bitsets_eq:
  "length (concat ps) = LENGTH('a) \<Longrightarrow>
   (concat_bitsets ps :: error + 'a::len word) = Inr (bitset (concat ps))"
  by (simp add: concat_bitsets_def foldl_append_concat)

lemmas string_bits =
  bit_bitset length_to_string sbit_append sbit_to_string sbit_Nil
  bit_SignExt bit_SignBit bit_sub_range

lemma to_ulong_key: "(ucast (to_ulong (A::32 word)) :: 32 word) = A"
  by (rule bit_word_eqI) (simp add: to_ulong_def bit_ucast_iff)

section \<open>The immediate generator\<close>

lemma imm_I_bits:
  "(bitset (to_string (SignExt (SignBit w) :: 21 word) @
            to_string (sub_range 30 20 (w::32 word) :: 11 word)) :: 32 word)
   = spec_imm_I w"
  unfolding spec_imm_I_def sign_extend_def bits_def
  apply (rule bit_word_eqI)
  apply (simp only: bit_or_iff bit_push_bit_iff bit_take_bit_iff bit_drop_bit_eq
      bit_signed_take_bit_iff possible_bit_word comp_def)
  apply (auto simp: string_bits min_def)
  done

lemma imm_S_bits:
  "(bitset (to_string (SignExt (SignBit w) :: 21 word) @
            to_string (sub_range 30 25 (w::32 word) :: 6 word) @
            to_string (sub_range 11 7 w :: 5 word)) :: 32 word)
   = spec_imm_S w"
  unfolding spec_imm_S_def sign_extend_def bits_def
  apply (rule bit_word_eqI)
  apply (simp only: bit_or_iff bit_push_bit_iff bit_take_bit_iff bit_drop_bit_eq
      bit_signed_take_bit_iff possible_bit_word comp_def)
  apply (auto simp: string_bits min_def)
  done

lemma imm_B_bits:
  "(bitset (to_string (SignExt (SignBit w) :: 20 word) @
            to_string (sub_range 7 7 (w::32 word) :: 1 word) @
            to_string (sub_range 30 25 w :: 6 word) @
            to_string (sub_range 11 8 w :: 4 word) @
            to_string (0 :: 1 word)) :: 32 word)
   = spec_imm_B w"
  unfolding spec_imm_B_def sign_extend_def bits_def
  apply (rule bit_word_eqI)
  apply (simp only: bit_or_iff bit_push_bit_iff bit_take_bit_iff bit_drop_bit_eq
      bit_signed_take_bit_iff possible_bit_word comp_def)
  apply (auto simp: string_bits min_def)
  done

lemma imm_U_bits:
  "(bitset (to_string (sub_range 31 12 (w::32 word) :: 20 word) @
            to_string (0 :: 12 word)) :: 32 word)
   = spec_imm_U w"
  unfolding spec_imm_U_def bits_def
  apply (rule bit_word_eqI)
  apply (simp only: bit_or_iff bit_push_bit_iff bit_take_bit_iff bit_drop_bit_eq
      bit_signed_take_bit_iff possible_bit_word comp_def)
  apply (auto simp: string_bits min_def)
  done

lemma imm_J_bits:
  "(bitset (to_string (SignExt (SignBit w) :: 12 word) @
            to_string (sub_range 19 12 (w::32 word) :: 8 word) @
            to_string (sub_range 20 20 w :: 1 word) @
            to_string (sub_range 30 21 w :: 10 word) @
            to_string (0 :: 1 word)) :: 32 word)
   = spec_imm_J w"
  unfolding spec_imm_J_def sign_extend_def bits_def
  apply (rule bit_word_eqI)
  apply (simp only: bit_or_iff bit_push_bit_iff bit_take_bit_iff bit_drop_bit_eq
      bit_signed_take_bit_iff possible_bit_word comp_def)
  apply (auto simp: string_bits min_def)
  done

section \<open>Data memory\<close>

lemma fst_dmem_subscript: "fst (dmem_subscript d a) = cell d a"
  by (simp add: dmem_subscript_def cell_def split: option.split)

lemma cell_dmem_subscript: "cell (snd (dmem_subscript d a)) b = cell d b"
  by (simp add: dmem_subscript_def cell_def split: option.split)

lemma cell_dmem_assign: "cell (dmem_assign d a v) b = (if b = a then v else cell d b)"
  by (simp add: dmem_assign_def cell_def)

lemma cell_DMEM_init: "cell DMEM_init a = 0"
  by (simp add: DMEM_init_def cell_def)

lemma store_byte_bits:
  "(bitset (to_string (0 :: 24 word) @
            to_string (sub_range 7 0 (WD::32 word) :: 8 word))
     :: 32 word) = take_bit 8 WD"
  by (rule bit_word_eqI) (auto simp: string_bits bit_take_bit_iff)

lemma store_half_bits:
  "(bitset (to_string (0 :: 16 word) @
            to_string (sub_range 15 0 (WD::32 word) :: 16 word))
     :: 32 word) = take_bit 16 WD"
  by (rule bit_word_eqI) (auto simp: string_bits bit_take_bit_iff)

lemma load_byte_bits:
  "(bitset (to_string (SignExt (SignBit (sub_range 7 0 (v::32 word) :: 8 word)) :: 24 word) @
            to_string (sub_range 7 0 v :: 8 word)) :: 32 word) = signed_take_bit 7 v"
proof (rule bit_word_eqI)
  fix n :: nat
  consider "n < 7" | "n = 7" | "7 < n" by linarith
  then show "bit (bitset (to_string (SignExt (SignBit (sub_range 7 0 v :: 8 word)) :: 24 word) @
               to_string (sub_range 7 0 v :: 8 word)) :: 32 word) n
             = bit (signed_take_bit 7 v) n"
    by cases (auto simp: string_bits bit_signed_take_bit_iff min_def dest: bit_imp_le_length)
qed

lemma load_half_bits:
  "(bitset (to_string (SignExt (SignBit (sub_range 15 0 (v::32 word) :: 16 word)) :: 16 word) @
            to_string (sub_range 15 0 v :: 16 word)) :: 32 word) = signed_take_bit 15 v"
proof (rule bit_word_eqI)
  fix n :: nat
  consider "n < 15" | "n = 15" | "15 < n" by linarith
  then show "bit (bitset (to_string (SignExt (SignBit (sub_range 15 0 v :: 16 word)) :: 16 word) @
               to_string (sub_range 15 0 v :: 16 word)) :: 32 word) n
             = bit (signed_take_bit 15 v) n"
    by cases (auto simp: string_bits bit_signed_take_bit_iff min_def dest: bit_imp_le_length)
qed

text \<open>A store never fails: it puts the word, cut to the width, under the address.\<close>

lemma Store_eq: "Store WD A w d = Inr (dmem_assign d A (stored w WD))"
  by (cases w)
    (simp_all add: Store_def stored_def to_ulong_key concat_bitsets_eq length_to_string
      store_byte_bits store_half_bits)

text \<open>
  A load never fails: its value is made of the cell under the address alone, and the
  state it leaves is the one \<open>operator[]\<close> leaves.
\<close>

lemma Load_eq: "Load A w d = Inr (loaded w (cell d A), snd (dmem_subscript d A))"
  by (cases w)
    (simp_all add: Load_def loaded_def to_ulong_key concat_bitsets_eq length_to_string
      store_byte_bits store_half_bits load_byte_bits load_half_bits
      split_beta fst_dmem_subscript Let_def prod_eq_iff)

lemma loaded_0: "loaded w 0 = 0"
  by (cases w) (simp_all add: loaded_def)

lemma store_then_load_eq:
  "store_then_load WD A w B w' d = Inr (loaded w' (if B = A then stored w WD else cell d B))"
  by (simp add: store_then_load_def Store_eq Load_eq cell_dmem_assign)

lemma never_stored_cell: "never_stored A d \<Longrightarrow> cell d A = 0"
proof (induction rule: never_stored.induct)
  case fresh
  show ?case by (simp add: cell_DMEM_init)
next
  case (after_store d B WD w d')
  then show ?case by (auto simp: Store_eq cell_dmem_assign)
next
  case (after_load d B w v d')
  then show ?case by (auto simp: Load_eq cell_dmem_subscript)
qed

text \<open>Two memories with the same cells give the same values to every program.\<close>

lemma run_ops_cong:
  "(\<And>a. cell d1 a = cell d2 a) \<Longrightarrow> run_ops ops d1 = run_ops ops d2"
proof (induction ops arbitrary: d1 d2)
  case Nil
  show ?case by simp
next
  case (Cons op ops)
  show ?case
  proof (cases op)
    case (DoStore WD A w)
    have "run_ops ops (dmem_assign d1 A (stored w WD)) = run_ops ops (dmem_assign d2 A (stored w WD))"
      by (rule Cons.IH) (simp add: cell_dmem_assign Cons.prems)
    then show ?thesis by (simp add: DoStore Store_eq)
  next
    case (DoLoad A w)
    have "run_ops ops (snd (dmem_subscript d1 A)) = run_ops ops (snd (dmem_subscript d2 A))"
      by (rule Cons.IH) (simp add: cell_dmem_subscript Cons.prems)
    then show ?thesis by (simp add: DoLoad Load_eq Cons.prems)
  qed
qed

section \<open>The register file\<close>

lemma register_index: "unat (ucast (to_ulong (A::5 word)) :: 8 word) = unat A"
proof -
  have "(ucast (to_ulong A) :: 8 word) = ucast A"
    by (rule bit_word_eqI) (auto simp: to_ulong_def bit_ucast_iff dest: bit_imp_le_length)
  moreover have "unat A < 2 ^ LENGTH(5)"
    by (rule unsigned_less)
  ultimately show ?thesis
    by (simp add: unsigned_ucast_eq take_bit_nat_eq_self)
qed

lemma register_index_bound: "unat (A::5 word) < 32"
proof -
  have "unat A < 2 ^ LENGTH(5)"
    by (rule unsigned_less)
  then show ?thesis by simp
qed

lemma Write_eq:
  "length (regs_m rf) = 32 \<Longrightarrow> Write A3 D3 rf = Inr (rf\<lparr>regs_m := (regs_m rf)[unat A3 := D3]\<rparr>)"
  by (simp add: Write_def register_index register_index_bound)

lemma Read_eq: "length (regs_m rf) = 32 \<Longrightarrow> Read A rf = Inr (regs_m rf ! unat A)"
  by (simp add: Read_def register_index register_index_bound)

lemma write_then_read_eq:
  "length (regs_m rf) = 32 \<Longrightarrow>
   write_then_read A3 D3 A rf = Inr (if A = A3 then D3 else regs_m rf ! unat A)"
proof -
  have "unat A \<noteq> unat A3" if "A \<noteq> A3"
    using that by (simp add: word_unat_eq_iff)
  moreover assume "length (regs_m rf) = 32"
  ultimately show ?thesis
    by (auto simp: write_then_read_def Write_eq Read_eq register_index_bound)
qed

lemma length_RegisterFile_init: "length (regs_m RegisterFile_init) = 32"
  by (simp add: RegisterFile_init_def)

text \<open>
  C1, as amended. \<open>RegisterFile::Write\<close> has no special case for index 0: on a register
  file of 32 registers, a write of D to index 0 puts D into register 0, a read of
  index 0 afterwards returns D, and a read of any other index returns what it
  returned before. A freshly constructed register file reads zero at index 0.
\<close>

theorem Write_index_0_stores:
  assumes "length (regs_m rf) = 32" and "A \<noteq> 0"
  shows "Write 0 D rf = Inr (rf\<lparr>regs_m := (regs_m rf)[0 := D]\<rparr>)
       \<and> write_then_read 0 D 0 rf = Inr D
       \<and> write_then_read 0 D A rf = Read A rf
       \<and> Read 0 RegisterFile_init = Inr 0"
proof -
  have "Read 0 RegisterFile_init = Inr 0"
    by (simp add: Read_eq length_RegisterFile_init) (simp add: RegisterFile_init_def)
  with assms show ?thesis
    by (simp add: write_then_read_eq Read_eq) (simp add: Write_eq)
qed

theorem Write_index_0_stores_witness:
  "length (regs_m RegisterFile_init) = 32 \<and> (3 :: 5 word) \<noteq> 0
   \<and> write_then_read 0 5 0 RegisterFile_init = Inr 5
   \<and> write_then_read 0 5 3 RegisterFile_init = Inr 0"
proof -
  have len: "length (regs_m RegisterFile_init) = 32"
    by (rule length_RegisterFile_init)
  have ne: "(3 :: 5 word) \<noteq> 0" by simp
  have "Read 3 RegisterFile_init = Inr 0"
    by (simp add: Read_eq len) (simp add: RegisterFile_init_def)
  with Write_index_0_stores [OF len ne, of 5] len ne show ?thesis by simp
qed

text \<open>
  C1 as stated fails: writing 5 to index 0 of a fresh register file changes the
  register file, and index 0 reads 5, not 0, afterwards.
\<close>

theorem Write_index_0_counterexample:
  "Write 0 5 RegisterFile_init \<noteq> Inr RegisterFile_init
   \<and> write_then_read 0 5 0 RegisterFile_init = Inr 5"
proof -
  have "Write 0 5 RegisterFile_init
        = Inr (RegisterFile_init\<lparr>regs_m := (regs_m RegisterFile_init)[0 := 5]\<rparr>)"
    by (simp add: Write_eq length_RegisterFile_init)
  moreover have "(regs_m RegisterFile_init)[0 := 5] ! 0 \<noteq> regs_m RegisterFile_init ! 0"
    by (simp add: RegisterFile_init_def)
  ultimately have "Write 0 5 RegisterFile_init \<noteq> Inr RegisterFile_init"
    by (metis Inr_inject RegisterFile.select_convs(1) RegisterFile.surjective
        RegisterFile.update_convs(1))
  then show ?thesis
    by (simp add: write_then_read_eq length_RegisterFile_init)
qed

section \<open>The program counter\<close>

text \<open>A byte offset that is a multiple of 4 is four times its signed quotient by 4.\<close>

lemma aligned_sdiv:
  assumes "unat (k::32 word) mod 4 = 0"
  shows "(word_of_int (sint k sdiv 4) :: 32 word) * 4 = k"
proof -
  have "int (unat k mod 4) = int (unat k) mod int 4"
    by (rule zmod_int)
  then have "int (unat k) mod 4 = 0"
    using assms by simp
  then have u: "uint k mod 4 = 0"
    by (simp only: uint_nat)
  have "uint k = sint k mod 2 ^ 32"
    by (simp add: uint_sint take_bit_eq_mod)
  then have "uint k mod 4 = sint k mod 2 ^ 32 mod 4"
    by simp
  also have "\<dots> = sint k mod 4"
    by (rule mod_mod_cancel) simp
  finally have d: "4 dvd sint k"
    using u by (simp add: dvd_eq_mod_eq_0)
  then have "sint k sdiv 4 = sint k div 4"
    by (simp add: signed_divide_int_eq_divide_int)
  then have "(word_of_int (sint k sdiv 4) :: 32 word) * 4 = word_of_int (sint k div 4 * 4)"
    by simp
  also have "\<dots> = word_of_int (sint k)"
    using d by simp
  finally show ?thesis by simp
qed

text \<open>
  Adding a byte offset that is a multiple of 4 adds it to the byte address, modulo
  \<open>2 ^ 32\<close>: \<open>operator+\<close> and \<open>operator+=\<close> divide the offset by 4 before they add it to
  the word index.
\<close>

lemma PC_plus_realVal:
  "unat k mod 4 = 0 \<Longrightarrow> map_sum id realVal (PC_plus p k) = Inr (realVal p + k)"
  by (simp add: PC_plus_def PC_of_def realVal_def distrib_right aligned_sdiv)

lemma PC_plus_assign_realVal:
  "unat k mod 4 = 0 \<Longrightarrow> map_sum id realVal (PC_plus_assign p k) = Inr (realVal p + k)"
  by (simp add: PC_plus_assign_def realVal_def distrib_right aligned_sdiv)

text \<open>
  The assignment stores its argument in the word index as it is, so the byte address
  read back is four times the byte address assigned.
\<close>

lemma PC_assign_realVal:
  "unat a mod 4 = 0 \<Longrightarrow> map_sum id realVal (PC_assign p a) = Inr (a * 4)"
  by (simp add: PC_assign_def realVal_def)

text \<open>
  C4, the code at the input where it departs from the claim. After the assignment
  \<open>p = 4\<close> of the byte address 4, which passes the assertion \<open>pc % 4 == 0\<close>,
  \<open>p.realVal()\<close> is 16 and not 4.
\<close>

theorem PC_assign_realVal_at_4:
  "map_sum id realVal (PC_assign PC_default 4) = Inr 16"
  by (simp add: PC_assign_def realVal_def PC_default_def)

section \<open>Instruction memory\<close>

text \<open>
  C3, as amended. In an instruction memory of n words, \<open>isEndOfIMEM\<close> holds at the PC
  whose word index is n, and there \<open>getInstr\<close> returns no word. At a word index above n
  \<open>isEndOfIMEM\<close> does not hold, and \<open>getInstr\<close> returns no word either. At a word index
  below n \<open>isEndOfIMEM\<close> does not hold and \<open>getInstr\<close> returns the word at the index.
\<close>

theorem isEndOfIMEM_exact:
  "(unat (val pc) = length (imem_m m) \<longrightarrow>
      isEndOfIMEM m pc \<and> getInstr m pc = Inl OutOfRange)
   \<and> (length (imem_m m) < unat (val pc) \<longrightarrow>
      \<not> isEndOfIMEM m pc \<and> getInstr m pc = Inl OutOfRange)
   \<and> (unat (val pc) < length (imem_m m) \<longrightarrow>
      \<not> isEndOfIMEM m pc \<and> getInstr m pc = Inr (imem_m m ! unat (val pc)))"
  by (simp add: isEndOfIMEM_def getInstr_def)

theorem isEndOfIMEM_exact_witness:
  "unat (val (PC_of 2)) = length (imem_m \<lparr>imem_m = [0x00500093, 0x00100073]\<rparr>)
   \<and> isEndOfIMEM \<lparr>imem_m = [0x00500093, 0x00100073]\<rparr> (PC_of 2)
   \<and> getInstr \<lparr>imem_m = [0x00500093, 0x00100073]\<rparr> (PC_of 2) = Inl OutOfRange
   \<and> length (imem_m \<lparr>imem_m = [0x00500093, 0x00100073]\<rparr>) < unat (val (PC_of 3))
   \<and> \<not> isEndOfIMEM \<lparr>imem_m = [0x00500093, 0x00100073]\<rparr> (PC_of 3)
   \<and> getInstr \<lparr>imem_m = [0x00500093, 0x00100073]\<rparr> (PC_of 3) = Inl OutOfRange
   \<and> unat (val (PC_of 1)) < length (imem_m \<lparr>imem_m = [0x00500093, 0x00100073]\<rparr>)
   \<and> \<not> isEndOfIMEM \<lparr>imem_m = [0x00500093, 0x00100073]\<rparr> (PC_of 1)
   \<and> getInstr \<lparr>imem_m = [0x00500093, 0x00100073]\<rparr> (PC_of 1) = Inr 0x00100073"
proof -
  let ?m = "\<lparr>imem_m = [0x00500093, 0x00100073 :: 32 word]\<rparr>"
  have a: "unat (val (PC_of 2)) = length (imem_m ?m)"
    and b: "length (imem_m ?m) < unat (val (PC_of 3))"
    and c: "unat (val (PC_of 1)) < length (imem_m ?m)"
    by (simp_all add: val_def PC_of_def)
  have "imem_m ?m ! unat (val (PC_of 1)) = 0x00100073"
    by (simp add: val_def PC_of_def)
  with a b c isEndOfIMEM_exact [of "PC_of 2" ?m] isEndOfIMEM_exact [of "PC_of 3" ?m]
    isEndOfIMEM_exact [of "PC_of 1" ?m]
  show ?thesis by simp
qed

text \<open>
  C3 as stated fails: in an instruction memory of two words the PC with word index 3
  is beyond the last word, and the end-of-IMEM condition is not detected there.
\<close>

theorem isEndOfIMEM_counterexample:
  "length (imem_m \<lparr>imem_m = [0x00500093, 0x00100073]\<rparr>) \<le> unat (val (PC_of 3))
   \<and> \<not> isEndOfIMEM \<lparr>imem_m = [0x00500093, 0x00100073]\<rparr> (PC_of 3)"
  by (simp add: isEndOfIMEM_def val_def PC_of_def)

section \<open>The immediate generator: the claim\<close>

text \<open>
  C5, as amended. For every instruction word w: constructed with \<open>is_jalr = false\<close> (the
  default), the immediate of an I-format word is the sign-extended field [31:20]; with
  \<open>is_jalr = true\<close> it is the constant 4. Whatever \<open>is_jalr\<close> is, S gives the
  sign-extended {[31:25], [11:7]}, B the sign-extended {[31], [7], [30:25], [11:8], 0},
  U gives {[31:12], 12'b0}, and J the sign-extended {[31], [19:12], [20], [30:21], 0}.
  No assertion of \<open>concat\<close> fails.
\<close>

theorem IMM_of_formats:
  "map_sum id getImm (IMM_of \<lparr>instr_bits = w, instr_format = Format_I\<rparr> False)
     = Inr (spec_imm_I w)
   \<and> map_sum id getImm (IMM_of \<lparr>instr_bits = w, instr_format = Format_I\<rparr> True) = Inr 4
   \<and> map_sum id getImm (IMM_of \<lparr>instr_bits = w, instr_format = Format_S\<rparr> is_jalr)
     = Inr (spec_imm_S w)
   \<and> map_sum id getImm (IMM_of \<lparr>instr_bits = w, instr_format = Format_B\<rparr> is_jalr)
     = Inr (spec_imm_B w)
   \<and> map_sum id getImm (IMM_of \<lparr>instr_bits = w, instr_format = Format_U\<rparr> is_jalr)
     = Inr (spec_imm_U w)
   \<and> map_sum id getImm (IMM_of \<lparr>instr_bits = w, instr_format = Format_J\<rparr> is_jalr)
     = Inr (spec_imm_J w)"
  by (simp add: IMM_of_def getImm_def concat_bitsets_eq length_to_string
      imm_I_bits imm_S_bits imm_B_bits imm_U_bits imm_J_bits bitset_of_ulong_def)

text \<open>
  C5 as stated fails: for the I-format word 0x008100E7 (JALR x1, 8(x2)) and
  \<open>is_jalr = true\<close> the generator produces 4, while the sign-extended field [31:20] of
  the word is 8.
\<close>

theorem IMM_of_jalr_counterexample:
  "map_sum id getImm (IMM_of \<lparr>instr_bits = 0x008100E7, instr_format = Format_I\<rparr> True) = Inr 4
   \<and> spec_imm_I 0x008100E7 = 8"
  by (simp add: IMM_of_def getImm_def bitset_of_ulong_def spec_imm_I_def sign_extend_def bits_def)

section \<open>The ALU\<close>

lemma ulong_roundtrip: "bitset_of_ulong (to_ulong (v::32 word)) = v"
  by (rule bit_word_eqI) (simp add: bitset_of_ulong_def to_ulong_def bit_ucast_iff)

lemma unat_to_ulong: "unat (to_ulong (v::32 word)) = unat v"
proof -
  have "unat v < 2 ^ LENGTH(32)"
    by (rule unsigned_less)
  then have "unat v < 2 ^ 64"
    by simp
  then show ?thesis
    by (simp add: to_ulong_def unsigned_ucast_eq take_bit_nat_eq_self)
qed

text \<open>Dividing the signed value by a power of two, rounding down, is the arithmetic shift.\<close>

lemma sra_value: "word_of_int (sint (w::32 word) div 2 ^ n) = signed_drop_bit n w"
proof -
  have "sint (signed_drop_bit n w) = sint w div 2 ^ n"
    by (simp add: sint_signed_drop_bit_eq drop_bit_eq_div)
  then have "word_of_int (sint w div 2 ^ n)
             = (word_of_int (sint (signed_drop_bit n w)) :: 32 word)"
    by simp
  then show ?thesis by simp
qed

text \<open>The bit-by-bit shift is the library's \<open>signed_drop_bit\<close>.\<close>

lemma bit_of_bits:
  "N \<le> LENGTH('a) \<Longrightarrow>
   bit (horner_sum of_bool 2 (map f [0..<N]) :: 'a::len word) n = (n < N \<and> f n)"
  by (auto simp: bit_horner_sum_bit_word_iff)

lemma arith_shift_right_eq:
  assumes "s < 32"
  shows "arith_shift_right v s = signed_drop_bit s v"
proof (rule bit_word_eqI)
  fix n :: nat
  assume "n < LENGTH(32)"
  then have "bit (arith_shift_right v s) n = bit v (if s + n < 32 then s + n else 31)"
    unfolding arith_shift_right_def by (subst bit_of_bits) simp_all
  also have "\<dots> = bit (signed_drop_bit s v) n"
    using assms \<open>n < LENGTH(32)\<close> by (auto simp: bit_signed_drop_bit_iff)
  finally show "bit (arith_shift_right v s) n = bit (signed_drop_bit s v) n" .
qed

text \<open>
  C8. For every lhs and every rhs below 32, \<open>ALU::calc(lhs, rhs, Op::SRA)\<close> returns the
  arithmetic right shift of lhs, read as a two's-complement value, by rhs positions:
  the sign bit fills the vacated high bits. It is the library's \<open>signed_drop_bit\<close>.
\<close>

theorem calc_SRA:
  "unat rhs < 32 \<Longrightarrow>
   calc lhs rhs Op_SRA = Inr (arith_shift_right lhs (unat rhs))
   \<and> arith_shift_right lhs (unat rhs) = signed_drop_bit (unat rhs) lhs"
  by (simp add: calc_def unat_to_ulong ulong_roundtrip sra_value arith_shift_right_eq)

theorem calc_SRA_witness:
  "unat (4 :: 32 word) < 32 \<and> calc 0x80000000 4 Op_SRA = Inr 0xF8000000"
proof -
  have h: "unat (4 :: 32 word) < 32"
    by simp
  from calc_SRA [OF h, of "0x80000000"] h show ?thesis
    by simp
qed

section \<open>Write enables\<close>

text \<open>
  C6. A \<open>WE_GEN\<close> constructed with \<open>v_ex = false\<close> has all three outputs false, whatever
  the \<open>mem_we\<close>, \<open>wb_we\<close> and \<open>ebreak\<close> inputs are: an invalid latch enables neither the
  memory store, nor the register write, nor the halt.
\<close>

theorem WE_GEN_bubble:
  "MEM_WE (WE_GEN_of mem_we wb_we ebreak False) = False
   \<and> WB_WE (WE_GEN_of mem_we wb_we ebreak False) = False
   \<and> EBREAK (WE_GEN_of mem_we wb_we ebreak False) = False"
  by (simp add: WE_GEN_of_def MEM_WE_def WB_WE_def EBREAK_def)

section \<open>Stores and loads\<close>

text \<open>
  C9. In every data-memory state, for every address A and word W, a store of W at A
  with width WORD followed by a load at A with width WORD returns W.
\<close>

theorem Store_Load_WORD:
  "store_then_load W A WORD A WORD d = Inr W"
  by (simp add: store_then_load_eq stored_def loaded_def)


text \<open>
  C2, as amended. The data memory is a map of separate 32-bit cells keyed by the
  address. After a store of W at A with width WORD, a load at A with width BYTE_U
  returns byte 0, the least significant byte, of W; a load at A + 1, A + 2 or A + 3
  with width BYTE_U returns what it returned before the store.
\<close>

theorem Store_WORD_Load_BYTE_U:
  "store_then_load W A WORD A BYTE_U d = Inr (byte_of 0 W)
   \<and> store_then_load W A WORD (A + 1) BYTE_U d = map_sum id fst (Load (A + 1) BYTE_U d)
   \<and> store_then_load W A WORD (A + 2) BYTE_U d = map_sum id fst (Load (A + 2) BYTE_U d)
   \<and> store_then_load W A WORD (A + 3) BYTE_U d = map_sum id fst (Load (A + 3) BYTE_U d)"
  by (simp add: store_then_load_eq Load_eq stored_def loaded_def byte_of_def)

text \<open>
  C2 as stated fails: after the word 0x12345678 is stored at address 0 of the empty
  memory, the unsigned byte loaded at address 1 is 0, while byte 1 of the word is 0x56.
\<close>

theorem Store_WORD_Load_BYTE_U_counterexample:
  "store_then_load 0x12345678 0 WORD 1 BYTE_U DMEM_init = Inr 0
   \<and> byte_of 1 0x12345678 = 0x56"
  by (simp add: store_then_load_eq cell_DMEM_init loaded_0 byte_of_def)

text \<open>
  C7. In a data-memory state in which address A has never been the target of a store,
  a load at A returns 0, for each of the five widths.
\<close>

theorem Load_never_stored:
  "never_stored A d \<Longrightarrow> map_sum id fst (Load A w d) = Inr 0"
  by (simp add: Load_eq never_stored_cell loaded_0)

theorem Load_never_stored_witness:
  "never_stored 8 (dmem_assign DMEM_init 4 0xFFFFFFFF)
   \<and> map_sum id fst (Load 8 HALF (dmem_assign DMEM_init 4 0xFFFFFFFF)) = Inr 0"
proof -
  have s: "Store 0xFFFFFFFF 4 WORD DMEM_init = Inr (dmem_assign DMEM_init 4 0xFFFFFFFF)"
    by (simp add: Store_eq stored_def)
  have ne: "(4 :: 32 word) \<noteq> 8"
    by simp
  have h: "never_stored 8 (dmem_assign DMEM_init 4 0xFFFFFFFF)"
    by (rule never_stored.after_store [OF never_stored.fresh ne s])
  from Load_never_stored [OF h, of HALF] h show ?thesis
    by simp
qed

text \<open>
  C10. A load never fails. It leaves the map as it was when the address has an entry,
  and adds a zero entry under the address when it has none; in both cases every
  program of later stores and loads returns the same values from the state after the
  load as from the state before it.
\<close>

theorem Load_observationally_pure:
  "\<exists>v d'. Load A w d = Inr (v, d')
     \<and> dmem_m d' = (case dmem_m d A of None \<Rightarrow> (dmem_m d)(A \<mapsto> 0) | Some x \<Rightarrow> dmem_m d)
     \<and> (\<forall>ops. run_ops ops d' = run_ops ops d)"
proof -
  let ?d' = "snd (dmem_subscript d A)"
  have "dmem_m ?d' = (case dmem_m d A of None \<Rightarrow> (dmem_m d)(A \<mapsto> 0) | Some x \<Rightarrow> dmem_m d)"
    by (simp add: dmem_subscript_def split: option.split)
  moreover have "run_ops ops ?d' = run_ops ops d" for ops
    by (rule run_ops_cong) (rule cell_dmem_subscript)
  ultimately show ?thesis
    by (simp add: Load_eq)
qed


end
